theory Spec2Isabelle
  imports Complex_Main "HOL-Library.Word"
begin

section \<open>Raw words, sizes and diagnostics\<close>

text \<open>
  The header \<^verbatim>\<open>include/arinc429/arinc429.h\<close> is a library of templates: a field
  descriptor is a type, a word type is \<^verbatim>\<open>word_generic<DataDescriptors...>\<close>, and the
  validation is done by \<^verbatim>\<open>static_assert\<close> when a template is instantiated. Here a
  descriptor type is a record value, a parameter pack is a list, and instantiating a template
  is a function whose result is either the instantiated entity (\<open>Inr\<close>) or the list of
  diagnostics that make the program ill-formed (\<open>Inl\<close>). Every failed
  \<^verbatim>\<open>static_assert\<close> of one instantiation is reported, in the order of the source.

  \<^verbatim>\<open>traits::word_raw_type\<close> is \<^verbatim>\<open>uint32_t\<close>; \<^verbatim>\<open>size_t\<close> is taken to be 64 bits wide
  (the LP64 and LLP64 data models), with the wrap-around of unsigned arithmetic.
\<close>

type_synonym word_raw_type = "32 word"
type_synonym size_t = "64 word"

definition word_size :: size_t where
  \<comment> \<open>\<^verbatim>\<open>sizeof(word_raw_type) * CHAR_BIT\<close>\<close>
  "word_size = 4 * 8"

datatype error =
    LayoutError \<comment> \<open>\<^verbatim>\<open>static_assert(LSB < MSB, "Invalid bit range!")\<close>\<close>
  | OutOfRangeError \<comment> \<open>\<^verbatim>\<open>static_assert(MSB <= traits::word_size, "MSB exceeds maximum index")\<close>\<close>
  | CapacityError \<comment> \<open>\<^verbatim>\<open>"Size of data exceeds size of arinc 429 word!"\<close>\<close>
  | NotFoundError \<comment> \<open>\<^verbatim>\<open>"Data descriptor not found!"\<close>\<close>
  | AmbiguousNameError \<comment> \<open>\<^verbatim>\<open>"Multiple data descriptors with same name were found"\<close>\<close>
  | TupleIndexError \<comment> \<open>\<^verbatim>\<open>std::tuple_element<0, std::tuple<>>\<close> has no member \<^verbatim>\<open>type\<close>\<close>
  | NoCommonType \<comment> \<open>\<^verbatim>\<open>std::common_type_t<>\<close> of an empty pack\<close>
  | NoMatchingCall \<comment> \<open>a call of the descriptor's \<^verbatim>\<open>operator()\<close> with no viable overload\<close>
  | IntegralExpected \<comment> \<open>\<^verbatim>\<open>"Only integral types are expected!"\<close>\<close>
  | FloatingPointExpected \<comment> \<open>\<^verbatim>\<open>"Only floating point types are expected!"\<close>\<close>
  | DivisionByZero \<comment> \<open>\<^verbatim>\<open>scale_factor_t::num / scale_factor_t::den\<close> with \<^verbatim>\<open>den == 0\<close>\<close>
  | DivisionOverflow \<comment> \<open>the same quotient of \<^verbatim>\<open>INTMAX_MIN\<close> by \<^verbatim>\<open>-1\<close>\<close>

definition static_assert :: "bool \<Rightarrow> error \<Rightarrow> error list" where
  "static_assert cond msg = (if cond then [] else [msg])"

section \<open>Value types\<close>

text \<open>
  A value type enters the code only through \<^verbatim>\<open>std::is_floating_point\<close>,
  \<^verbatim>\<open>std::is_signed\<close> and value-initialisation (\<^verbatim>\<open>retVal{}\<close>), so the arithmetic types
  are modelled by these three classes. No conversion of the header does arithmetic on a
  value; a floating-point value is carried as the real number it denotes.
\<close>

datatype ctype = UnsignedIntegral | SignedIntegral | FloatingPoint

datatype cvalue = UnsignedV nat | SignedV int | FloatingV real

fun ctype_of :: "cvalue \<Rightarrow> ctype" where
  "ctype_of (UnsignedV n) = UnsignedIntegral"
| "ctype_of (SignedV i) = SignedIntegral"
| "ctype_of (FloatingV x) = FloatingPoint"

fun is_floating_point :: "ctype \<Rightarrow> bool" where
  "is_floating_point FloatingPoint = True"
| "is_floating_point SignedIntegral = False"
| "is_floating_point UnsignedIntegral = False"

fun is_signed :: "ctype \<Rightarrow> bool" where
  "is_signed UnsignedIntegral = False"
| "is_signed SignedIntegral = True"
| "is_signed FloatingPoint = True"

fun value_initialized :: "ctype \<Rightarrow> cvalue" where
  \<comment> \<open>\<^verbatim>\<open>typename data_descriptor_t::value_type retVal{};\<close>\<close>
  "value_initialized UnsignedIntegral = UnsignedV 0"
| "value_initialized SignedIntegral = SignedV 0"
| "value_initialized FloatingPoint = FloatingV 0"

section \<open>Field descriptors\<close>

text \<open>
  \<^verbatim>\<open>scale_factor_type\<close> is a \<^verbatim>\<open>std::ratio\<close>: two constants \<^verbatim>\<open>num\<close> and \<^verbatim>\<open>den\<close> of
  type \<^verbatim>\<open>intmax_t\<close>, a signed integer of 64 bits (read with \<open>sint\<close>).
\<close>

type_synonym intmax_t = "64 word"

record ratio =
  num :: intmax_t
  den :: intmax_t

text \<open>
  A descriptor type, as \<^verbatim>\<open>traits::data_descriptor_traits\<close> reads it (\<open>lsb\<close>, \<open>msb\<close>,
  \<open>value_type\<close>, \<open>name_type\<close>, \<open>scale_factor_type\<close>), together with what the rest of the
  header asks of it:
  \<^item> \<open>probe_get V\<close>: whether \<^verbatim>\<open>std::declval<T>()(std::declval<V>(), tag_get())\<close> is
    well-formed, the expression \<^verbatim>\<open>traits::defines_getter<T, V>\<close> tests;
  \<^item> \<open>probe_set V\<close>: the same for \<^verbatim>\<open>std::declval<T>()(std::declval<const V>(), tag_set())\<close>
    of \<^verbatim>\<open>traits::defines_setter<T, V>\<close>;
  \<^item> \<open>op_get\<close>: the call \<^verbatim>\<open>DataDescriptor()(retVal, wordRaw, tag_get())\<close>, when it is
    well-formed for a modifiable \<^verbatim>\<open>retVal\<close>: \<open>getter_call\<close> takes the destination and the
    raw word to what the operator leaves in both of its arguments, and \<open>binds_const\<close> says
    whether the same call is also well-formed for a \<^verbatim>\<open>const\<close> destination (it is not for
    an operator that takes \<^verbatim>\<open>value_type &\<close>); a \<^verbatim>\<open>const\<close> destination keeps its value;
  \<^item> \<open>op_set\<close>: the call \<^verbatim>\<open>DataDescriptor()(value, wordRaw, tag_set())\<close>, when it is
    well-formed: the value is \<^verbatim>\<open>const\<close>, the result is what it leaves in \<^verbatim>\<open>wordRaw\<close>.
\<close>

datatype getter =
  Getter (getter_call: "cvalue \<Rightarrow> word_raw_type \<Rightarrow> cvalue \<times> word_raw_type") (binds_const: bool)

record 'n descriptor =
  name_type :: 'n
  lsb :: size_t
  msb :: size_t
  value_type :: ctype
  scale_factor_type :: ratio
  probe_get :: "ctype \<Rightarrow> bool"
  probe_set :: "ctype \<Rightarrow> bool"
  op_get :: "getter option"
  op_set :: "(cvalue \<Rightarrow> word_raw_type \<Rightarrow> word_raw_type) option"

definition data_descriptor ::
  "'n \<Rightarrow> size_t \<Rightarrow> size_t \<Rightarrow> ctype \<Rightarrow> ratio \<Rightarrow> error list + 'n descriptor" where
  \<comment> \<open>\<^verbatim>\<open>template<NameType, LSB, MSB, ValueType, ScaleFactorT> struct data_descriptor\<close>; the
      struct declares no \<^verbatim>\<open>operator()\<close>\<close>
  "data_descriptor NameType LSB MSB ValueType ScaleFactorT =
     (case static_assert (LSB < MSB) LayoutError @
           static_assert (MSB \<le> word_size) OutOfRangeError of
        [] \<Rightarrow> Inr \<lparr>name_type = NameType, lsb = LSB, msb = MSB, value_type = ValueType,
                   scale_factor_type = ScaleFactorT,
                   probe_get = (\<lambda>V. False), probe_set = (\<lambda>V. False),
                   op_get = None, op_set = None\<rparr>
      | e # es \<Rightarrow> Inl (e # es))"

definition ratio_1_1 :: ratio where
  \<comment> \<open>the default \<^verbatim>\<open>ScaleFactorT = std::ratio<1, 1>\<close>\<close>
  "ratio_1_1 = \<lparr>num = 1, den = 1\<rparr>"

definition defines_getter :: "'n descriptor \<Rightarrow> ctype \<Rightarrow> bool" where
  "defines_getter T ValueType = probe_get T ValueType"

definition defines_setter :: "'n descriptor \<Rightarrow> ctype \<Rightarrow> bool" where
  "defines_setter T ValueType = probe_set T ValueType"

section \<open>Field lookup\<close>

definition is_same_name_type :: "'n \<Rightarrow> 'n descriptor \<Rightarrow> bool" where
  \<comment> \<open>\<^verbatim>\<open>std::is_same<name_type_t<DataDescriptor>, NameType>\<close>\<close>
  "is_same_name_type NameType DataDescriptor = (name_type DataDescriptor = NameType)"

definition filter_t :: "'a list \<Rightarrow> ('a \<Rightarrow> bool) \<Rightarrow> 'a list" where
  \<comment> \<open>\<^verbatim>\<open>std::tuple_cat\<close> of \<^verbatim>\<open>std::tuple<Ts>\<close> where the predicate holds, \<^verbatim>\<open>std::tuple<>\<close>
      where it does not\<close>
  "filter_t Tuple Pred = concat (map (\<lambda>Ts. if Pred Ts then [Ts] else []) Tuple)"

definition tuple_element_0 :: "'a list \<Rightarrow> error list + 'a" where
  \<comment> \<open>\<^verbatim>\<open>typename std::tuple_element<0, filtered_t>::type\<close>\<close>
  "tuple_element_0 Tuple = (case Tuple of [] \<Rightarrow> Inl [TupleIndexError] | T # Ts \<Rightarrow> Inr T)"

definition get_data_descriptor ::
  "'n \<Rightarrow> 'n descriptor list \<Rightarrow> 'p option \<Rightarrow> error list + 'n descriptor" where
  \<comment> \<open>\<open>NotFoundPlaceholder = None\<close> is the default \<^verbatim>\<open>void\<close>\<close>
  "get_data_descriptor NameType TupleDataDescriptors NotFoundPlaceholder =
     (let filtered_t = filter_t TupleDataDescriptors (is_same_name_type NameType) in
      case static_assert (\<not> (NotFoundPlaceholder = None) \<or> length filtered_t \<noteq> 0)
             NotFoundError @
           static_assert (length filtered_t < 2) AmbiguousNameError of
        [] \<Rightarrow> tuple_element_0 filtered_t
      | e # es \<Rightarrow>
          (case tuple_element_0 filtered_t of
             Inl es' \<Rightarrow> Inl (e # es @ es')
           | Inr T \<Rightarrow> Inl (e # es)))"

section \<open>Conversions\<close>

fun get_integral_value ::
  "cvalue \<Rightarrow> word_raw_type \<Rightarrow> size_t \<Rightarrow> size_t \<Rightarrow> bool \<Rightarrow> cvalue" where
  \<comment> \<open>both overloads have the body \<^verbatim>\<open>// TODO: implement\<close>: \<^verbatim>\<open>dest\<close> keeps its value\<close>
  "get_integral_value dest wordRaw LSB MSB False = dest"
| "get_integral_value dest wordRaw LSB MSB True = dest"

fun detail_get_value ::
  "cvalue \<Rightarrow> word_raw_type \<Rightarrow> size_t \<Rightarrow> size_t \<Rightarrow> real \<Rightarrow> bool \<Rightarrow> error list + cvalue" where
  \<comment> \<open>\<^verbatim>\<open>detail::get_value(dest, wordRaw, lsb, msb, scaleFactor, is_floating_point)\<close>\<close>
  "detail_get_value dest wordRaw LSB MSB scaleFactor False =
     (case static_assert (\<not> is_floating_point (ctype_of dest)) IntegralExpected of
        [] \<Rightarrow> Inr (get_integral_value dest wordRaw LSB MSB (is_signed (ctype_of dest)))
      | e # es \<Rightarrow> Inl (e # es))"
| "detail_get_value dest wordRaw LSB MSB scaleFactor True =
     (case static_assert (is_floating_point (ctype_of dest)) FloatingPointExpected of
        [] \<Rightarrow> Inr dest
      | e # es \<Rightarrow> Inl (e # es))"

definition intmax_div :: "int \<Rightarrow> int \<Rightarrow> int" where
  \<comment> \<open>the \<^verbatim>\<open>/\<close> of \<^verbatim>\<open>intmax_t\<close>: the quotient with its fraction discarded\<close>
  "intmax_div a b = (if (a < 0) = (b < 0) then \<bar>a\<bar> div \<bar>b\<bar> else - (\<bar>a\<bar> div \<bar>b\<bar>))"

text \<open>
  The conversion of an \<^verbatim>\<open>intmax_t\<close> to \<^verbatim>\<open>double\<close> (IEEE 754 binary64, rounding to
  nearest, ties to even): a magnitude below \<open>2 ^ 53\<close> is exact, a larger one keeps its 53
  leading bits, rounded. \<open>excess_bits a\<close> is the number of bits of \<open>a\<close> beyond 53.
\<close>

function excess_bits :: "int \<Rightarrow> nat" where
  "excess_bits a = (if a < 2 ^ 53 then 0 else Suc (excess_bits (a div 2)))"
  by pat_completeness auto
termination
  by (relation "measure nat") auto

definition double_of_intmax :: "int \<Rightarrow> real" where
  "double_of_intmax q =
     (let a = \<bar>q\<bar>;
          e = excess_bits a;
          m = a div 2 ^ e;
          r = a mod 2 ^ e;
          m' = (if 2 ^ e < 2 * r \<or> (2 * r = 2 ^ e \<and> odd m) then m + 1 else m)
      in of_int (sgn q * (m' * 2 ^ e)))"

definition scale_factor_double :: "ratio \<Rightarrow> error list + real" where
  \<comment> \<open>\<^verbatim>\<open>double(scale_factor_t::num / scale_factor_t::den)\<close>; the division by zero and the
      quotient that does not fit \<^verbatim>\<open>intmax_t\<close> are undefined and reported\<close>
  "scale_factor_double scale_factor_t =
     (let n = sint (num scale_factor_t); d = sint (den scale_factor_t) in
      if d = 0 then Inl [DivisionByZero]
      else if n = - (2 ^ 63) \<and> d = - 1 then Inl [DivisionOverflow]
      else Inr (double_of_intmax (intmax_div n d)))"

fun detail_get_value_descriptor ::
  "'n descriptor \<Rightarrow> bool \<Rightarrow> cvalue \<Rightarrow> word_raw_type \<Rightarrow> bool \<Rightarrow> error list + cvalue" where
  \<comment> \<open>\<^verbatim>\<open>detail::get_value<DataDescriptor>(retVal, wordRaw, defines_getter)\<close>; \<^verbatim>\<open>wordRaw\<close> is
      passed by value, so what a custom operator leaves in it is dropped. \<open>is_const\<close> is
      \<^verbatim>\<open>std::is_const<ValueType>\<close> of the deduced \<^verbatim>\<open>ValueType\<close>: the empty bodies of the
      generic overloads accept a \<^verbatim>\<open>const\<close> destination, a custom operator may not\<close>
  "detail_get_value_descriptor DataDescriptor is_const retVal wordRaw False =
     (case scale_factor_double (scale_factor_type DataDescriptor) of
        Inl es \<Rightarrow> Inl es
      | Inr scaleFactor \<Rightarrow>
          detail_get_value retVal wordRaw (lsb DataDescriptor) (msb DataDescriptor) scaleFactor
            (is_floating_point (ctype_of retVal)))"
| "detail_get_value_descriptor DataDescriptor is_const retVal wordRaw True =
     (case op_get DataDescriptor of
        None \<Rightarrow> Inl [NoMatchingCall]
      | Some operator \<Rightarrow>
          if is_const
          then (if binds_const operator then Inr retVal else Inl [NoMatchingCall])
          else Inr (fst (getter_call operator retVal wordRaw)))"

fun set_integral_value ::
  "cvalue \<Rightarrow> word_raw_type \<Rightarrow> size_t \<Rightarrow> size_t \<Rightarrow> bool \<Rightarrow> word_raw_type" where
  \<comment> \<open>both overloads have the body \<^verbatim>\<open>// TODO: implement\<close>: \<^verbatim>\<open>wordRaw\<close> keeps its value\<close>
  "set_integral_value v wordRaw LSB MSB False = wordRaw"
| "set_integral_value v wordRaw LSB MSB True = wordRaw"

fun detail_set_value ::
  "cvalue \<Rightarrow> word_raw_type \<Rightarrow> size_t \<Rightarrow> size_t \<Rightarrow> real \<Rightarrow> bool \<Rightarrow> error list + word_raw_type"
  where
  \<comment> \<open>\<^verbatim>\<open>detail::set_value(value, wordRaw, lsb, msb, scaleFactor, is_floating_point)\<close>\<close>
  "detail_set_value v wordRaw LSB MSB scaleFactor False =
     (case static_assert (\<not> is_floating_point (ctype_of v)) IntegralExpected of
        [] \<Rightarrow> Inr (set_integral_value v wordRaw LSB MSB (is_signed (ctype_of v)))
      | e # es \<Rightarrow> Inl (e # es))"
| "detail_set_value v wordRaw LSB MSB scaleFactor True =
     (case static_assert (is_floating_point (ctype_of v)) FloatingPointExpected of
        [] \<Rightarrow> Inr wordRaw
      | e # es \<Rightarrow> Inl (e # es))"

fun detail_set_value_descriptor ::
  "'n descriptor \<Rightarrow> cvalue \<Rightarrow> word_raw_type \<Rightarrow> bool \<Rightarrow> error list + word_raw_type" where
  \<comment> \<open>\<^verbatim>\<open>detail::set_value<DataDescriptor>(value, wordRaw, defines_getter)\<close>\<close>
  "detail_set_value_descriptor DataDescriptor v wordRaw False =
     (case scale_factor_double (scale_factor_type DataDescriptor) of
        Inl es \<Rightarrow> Inl es
      | Inr scaleFactor \<Rightarrow>
          detail_set_value v wordRaw (lsb DataDescriptor) (msb DataDescriptor) scaleFactor
            (is_floating_point (ctype_of v)))"
| "detail_set_value_descriptor DataDescriptor v wordRaw True =
     (case op_set DataDescriptor of
        None \<Rightarrow> Inl [NoMatchingCall]
      | Some call \<Rightarrow> Inr (call v wordRaw))"

definition get_value ::
  "cvalue \<Rightarrow> word_raw_type \<Rightarrow> size_t \<Rightarrow> size_t \<Rightarrow> real \<Rightarrow> error list + cvalue" where
  \<comment> \<open>\<^verbatim>\<open>get_value(destination, wordRaw, lsb, msb, scaleFactor = 1.0)\<close>\<close>
  "get_value destination wordRaw LSB MSB scaleFactor =
     detail_get_value destination wordRaw LSB MSB scaleFactor
       (is_floating_point (ctype_of destination))"

definition get_value_descriptor ::
  "'n descriptor \<Rightarrow> cvalue \<Rightarrow> word_raw_type \<Rightarrow> error list + cvalue" where
  \<comment> \<open>\<^verbatim>\<open>get_value<DataDescriptor>(retVal, wordRaw)\<close>, as \<^verbatim>\<open>get\<close> calls it: \<^verbatim>\<open>retVal\<close> is
      a modifiable local variable\<close>
  "get_value_descriptor DataDescriptor retVal wordRaw =
     detail_get_value_descriptor DataDescriptor False retVal wordRaw
       (defines_getter DataDescriptor (ctype_of retVal))"

definition set_value ::
  "cvalue \<Rightarrow> word_raw_type \<Rightarrow> size_t \<Rightarrow> size_t \<Rightarrow> real \<Rightarrow> error list + word_raw_type" where
  \<comment> \<open>\<^verbatim>\<open>set_value(value, wordRaw, lsb, msb, scaleFactor = 1.0)\<close>\<close>
  "set_value v wordRaw LSB MSB scaleFactor =
     detail_set_value v wordRaw LSB MSB scaleFactor (is_floating_point (ctype_of v))"

definition set_value_descriptor ::
  "'n descriptor \<Rightarrow> cvalue \<Rightarrow> word_raw_type \<Rightarrow> error list + word_raw_type" where
  \<comment> \<open>\<^verbatim>\<open>set_value<DataDescriptor>(value, wordRaw)\<close>: its body calls
      \<^verbatim>\<open>detail::get_value<DataDescriptor>(value, wordRaw, defines_getter<...>())\<close>, which
      takes \<^verbatim>\<open>wordRaw\<close> by value and the \<^verbatim>\<open>const ValueType &value\<close> as its destination
      (\<^verbatim>\<open>ValueType\<close> is deduced \<^verbatim>\<open>const\<close> there), so the caller's \<^verbatim>\<open>wordRaw\<close> is the
      one it had\<close>
  "set_value_descriptor DataDescriptor v wordRaw =
     (case detail_get_value_descriptor DataDescriptor True v wordRaw
             (defines_getter DataDescriptor (ctype_of v)) of
        Inl es \<Rightarrow> Inl es
      | Inr retVal \<Rightarrow> Inr wordRaw)"

section \<open>The word container\<close>

fun detail_sum :: "size_t list \<Rightarrow> error list + size_t" where
  \<comment> \<open>\<^verbatim>\<open>sum_t sum = {}; for (auto i : argsArray) sum += i;\<close>\<close>
  "detail_sum [] = Inl [NoCommonType]"
| "detail_sum (a # args) = Inr (foldl (\<lambda>sum i. sum + i) 0 (a # args))"

record 'n word_generic =
  DataDescriptors :: "'n descriptor list"
  raw_word :: word_raw_type

definition word_generic_static_assert :: "'n descriptor list \<Rightarrow> error list" where
  \<comment> \<open>the \<^verbatim>\<open>static_assert\<close> in the body of \<^verbatim>\<open>class word_generic\<close>\<close>
  "word_generic_static_assert Descriptors =
     (case detail_sum (map (\<lambda>D. msb D - lsb D) Descriptors) of
        Inl es \<Rightarrow> es
      | Inr bits \<Rightarrow> static_assert (bits \<le> word_size) CapacityError)"

definition word_generic_ctor ::
  "'n descriptor list \<Rightarrow> word_raw_type \<Rightarrow> error list + 'n word_generic" where
  \<comment> \<open>\<^verbatim>\<open>word_generic<DataDescriptors...>(rawWord)\<close>\<close>
  "word_generic_ctor Descriptors rawWord =
     (case word_generic_static_assert Descriptors of
        [] \<Rightarrow> Inr \<lparr>DataDescriptors = Descriptors, raw_word = rawWord\<rparr>
      | e # es \<Rightarrow> Inl (e # es))"

definition word_generic_get ::
  "'n word_generic \<Rightarrow> 'n \<Rightarrow> error list + cvalue \<times> 'n word_generic" where
  \<comment> \<open>\<^verbatim>\<open>get<NameType>()\<close>: the value returned and the container after the call\<close>
  "word_generic_get w NameType =
     (case get_data_descriptor NameType (DataDescriptors w) (None :: unit option) of
        Inl es \<Rightarrow> Inl es
      | Inr data_descriptor_t \<Rightarrow>
          (case get_value_descriptor data_descriptor_t
                  (value_initialized (value_type data_descriptor_t)) (raw_word w) of
             Inl es \<Rightarrow> Inl es
           | Inr retVal \<Rightarrow> Inr (retVal, w)))"

definition word_generic_set ::
  "'n word_generic \<Rightarrow> 'n \<Rightarrow> cvalue \<Rightarrow> error list + 'n word_generic" where
  \<comment> \<open>\<^verbatim>\<open>set<NameType>(value)\<close>: the container after the call\<close>
  "word_generic_set w NameType v =
     (case get_data_descriptor NameType (DataDescriptors w) (None :: unit option) of
        Inl es \<Rightarrow> Inl es
      | Inr data_descriptor_t \<Rightarrow>
          (case set_value_descriptor data_descriptor_t v (raw_word w) of
             Inl es \<Rightarrow> Inl es
           | Inr wordRaw \<Rightarrow> Inr (w\<lparr>raw_word := wordRaw\<rparr>)))"

definition get_raw :: "'n word_generic \<Rightarrow> word_raw_type" where
  "get_raw w = raw_word w"

definition set_raw :: "'n word_generic \<Rightarrow> word_raw_type \<Rightarrow> 'n word_generic" where
  "set_raw w rawWord = w\<lparr>raw_word := rawWord\<rparr>"


section \<open>Example descriptors\<close>

text \<open>
  Descriptor types used as concrete inputs below.
  \<^item> \<open>custom_label\<close> declares a setter
    \<^verbatim>\<open>operator()(const value_type &, word_raw_type &, tag_set)\<close> that stores the value as
    the whole word, and the two-argument \<^verbatim>\<open>operator()(const value_type &, tag_set)\<close> that
    \<^verbatim>\<open>traits::defines_setter\<close> probes.
  \<^item> \<open>custom_ssm\<close> declares a getter \<^verbatim>\<open>operator()(value_type &, word_raw_type &, tag_get)\<close>
    that reads bits 29 and 30 and then clears its own copy of the raw word, and the
    two-argument \<^verbatim>\<open>operator()(value_type, tag_get)\<close> that \<^verbatim>\<open>traits::defines_getter\<close>
    probes.
  \<^item> \<open>raw_getter_ssm\<close> declares only the getter that takes the raw word,
    \<^verbatim>\<open>operator()(value_type &, word_raw_type, tag_get)\<close>, reading bits 29 and 30.
  \<^item> \<open>probed_ssm\<close> declares only the two-argument \<^verbatim>\<open>operator()(value_type, tag_get)\<close>.
  \<^item> \<open>wide_a\<close> and \<open>wide_b\<close> are two fields of 19 and 20 bits.
\<close>

definition custom_label :: "string descriptor" where
  "custom_label =
     \<lparr>name_type = ''label'', lsb = 1, msb = 8, value_type = UnsignedIntegral,
      scale_factor_type = ratio_1_1,
      probe_get = (\<lambda>V. False), probe_set = (\<lambda>V. True),
      op_get = None,
      op_set = Some (\<lambda>v wordRaw.
                 case v of UnsignedV n \<Rightarrow> of_nat n
                         | SignedV i \<Rightarrow> wordRaw
                         | FloatingV x \<Rightarrow> wordRaw)\<rparr>"

definition custom_ssm :: "string descriptor" where
  "custom_ssm =
     \<lparr>name_type = ''ssm'', lsb = 29, msb = 30, value_type = UnsignedIntegral,
      scale_factor_type = \<lparr>num = 1, den = 0\<rparr>,
      probe_get = (\<lambda>V. True), probe_set = (\<lambda>V. False),
      op_get = Some (Getter
                 (\<lambda>retVal wordRaw. (UnsignedV (unat (take_bit 2 (drop_bit 28 wordRaw))), 0))
                 False),
      op_set = None\<rparr>"

definition raw_getter_ssm :: "string descriptor" where
  "raw_getter_ssm =
     \<lparr>name_type = ''ssm'', lsb = 29, msb = 30, value_type = UnsignedIntegral,
      scale_factor_type = ratio_1_1,
      probe_get = (\<lambda>V. False), probe_set = (\<lambda>V. False),
      op_get = Some (Getter
                 (\<lambda>retVal wordRaw.
                    (UnsignedV (unat (take_bit 2 (drop_bit 28 wordRaw))), wordRaw))
                 False),
      op_set = None\<rparr>"

definition probed_ssm :: "string descriptor" where
  "probed_ssm =
     \<lparr>name_type = ''ssm'', lsb = 29, msb = 30, value_type = UnsignedIntegral,
      scale_factor_type = ratio_1_1,
      probe_get = (\<lambda>V. True), probe_set = (\<lambda>V. False),
      op_get = None, op_set = None\<rparr>"

definition wide_a :: "string descriptor" where
  "wide_a =
     \<lparr>name_type = ''a'', lsb = 1, msb = 20, value_type = UnsignedIntegral,
      scale_factor_type = ratio_1_1,
      probe_get = (\<lambda>V. False), probe_set = (\<lambda>V. False), op_get = None, op_set = None\<rparr>"

definition wide_b :: "string descriptor" where
  "wide_b =
     \<lparr>name_type = ''b'', lsb = 10, msb = 30, value_type = SignedIntegral,
      scale_factor_type = ratio_1_1,
      probe_get = (\<lambda>V. False), probe_set = (\<lambda>V. False), op_get = None, op_set = None\<rparr>"

definition ratio_1_1000 :: ratio where
  \<comment> \<open>\<^verbatim>\<open>std::ratio<1, 1000>\<close>\<close>
  "ratio_1_1000 = \<lparr>num = 1, den = 1000\<rparr>"

section \<open>Auxiliary facts\<close>

declare excess_bits.simps [simp del]

lemma excess_bits_small: "a < 2 ^ 53 \<Longrightarrow> excess_bits a = 0"
  by (simp add: excess_bits.simps)

lemma double_of_intmax_exact:
  assumes "\<bar>q\<bar> < 2 ^ 53"
  shows "double_of_intmax q = of_int q"
proof -
  have "excess_bits \<bar>q\<bar> = 0"
    using assms by (rule excess_bits_small)
  then have "double_of_intmax q = of_int (sgn q * \<bar>q\<bar>)"
    by (simp add: double_of_intmax_def)
  also have "sgn q * \<bar>q\<bar> = q"
    by (simp add: sgn_mult_abs)
  finally show ?thesis .
qed

lemma scale_factor_double_ratio_1_1: "scale_factor_double ratio_1_1 = Inr 1"
  by (simp add: scale_factor_double_def ratio_1_1_def intmax_div_def double_of_intmax_exact)

text \<open>The loop of \<^verbatim>\<open>detail::sum\<close> started from any accumulator.\<close>

lemma foldl_plus_word:
  "foldl (\<lambda>sum i. sum + i) (acc :: size_t) ws = acc + foldl (\<lambda>sum i. sum + i) 0 ws"
proof (induction ws arbitrary: acc)
  case Nil
  show ?case by simp
next
  case (Cons a ws)
  have "foldl (\<lambda>sum i. sum + i) acc (a # ws) = foldl (\<lambda>sum i. sum + i) (acc + a) ws"
    by simp
  also have "\<dots> = (acc + a) + foldl (\<lambda>sum i. sum + i) 0 ws"
    by (rule Cons.IH)
  also have "\<dots> = acc + foldl (\<lambda>sum i. sum + i) a ws"
    using Cons.IH [of a] by (simp add: add.assoc)
  finally show ?case by simp
qed

text \<open>
  The \<^verbatim>\<open>size_t\<close> total of the widths is the integer total of \<open>msb - lsb\<close>, reduced
  modulo \<open>2 ^ 64\<close>.
\<close>

lemma foldl_widths:
  "foldl (\<lambda>sum i. sum + i) 0 (map (\<lambda>D. msb D - lsb D) Descriptors)
     = (word_of_int (\<Sum>D\<leftarrow>Descriptors. uint (msb D) - uint (lsb D)) :: size_t)"
proof (induction Descriptors)
  case Nil
  show ?case by simp
next
  case (Cons D Ds)
  have "foldl (\<lambda>sum i. sum + i) 0 (map (\<lambda>D. msb D - lsb D) (D # Ds))
          = (msb D - lsb D) + foldl (\<lambda>sum i. sum + i) 0 (map (\<lambda>D. msb D - lsb D) Ds)"
    using foldl_plus_word [of "msb D - lsb D"] by simp
  then show ?case using Cons.IH by simp
qed

lemma data_descriptor_same_bit:
  "data_descriptor NameType p p ValueType ScaleFactorT
     = Inl (LayoutError # static_assert (p \<le> word_size) OutOfRangeError)"
  by (simp add: data_descriptor_def static_assert_def)

section \<open>The word container: set and get\<close>

text \<open>
  C1. \<open>set(name, value)\<close> resolves the descriptor, dispatches to the set conversion and
  stores the encoded word. The body of \<^verbatim>\<open>set_value<DataDescriptor>\<close> calls
  \<^verbatim>\<open>detail::get_value<DataDescriptor>\<close> with \<^verbatim>\<open>traits::defines_getter\<close>, not
  \<^verbatim>\<open>detail::set_value<DataDescriptor>\<close>. For the word type with the one descriptor
  \<open>custom_label\<close> and the raw word 0, \<open>set\<close> of the value 129 leaves the raw word 0, while
  the setter path of the same descriptor encodes 129.
\<close>

theorem set_takes_getter_path:
  "word_generic_ctor [custom_label] 0 = Inr \<lparr>DataDescriptors = [custom_label], raw_word = 0\<rparr> \<and>
   word_generic_set \<lparr>DataDescriptors = [custom_label], raw_word = 0\<rparr> ''label'' (UnsignedV 129)
     = Inr \<lparr>DataDescriptors = [custom_label], raw_word = 0\<rparr> \<and>
   detail_set_value_descriptor custom_label (UnsignedV 129) 0
       (defines_setter custom_label UnsignedIntegral) = Inr 129"
proof (intro conjI)
  show "word_generic_ctor [custom_label] 0
          = Inr \<lparr>DataDescriptors = [custom_label], raw_word = 0\<rparr>"
    by (simp add: word_generic_ctor_def word_generic_static_assert_def static_assert_def
        custom_label_def word_size_def)
  show "word_generic_set \<lparr>DataDescriptors = [custom_label], raw_word = 0\<rparr> ''label''
            (UnsignedV 129)
          = Inr \<lparr>DataDescriptors = [custom_label], raw_word = 0\<rparr>"
    by (simp add: word_generic_set_def get_data_descriptor_def filter_t_def
        is_same_name_type_def static_assert_def tuple_element_0_def set_value_descriptor_def
        defines_getter_def custom_label_def scale_factor_double_ratio_1_1)
  show "detail_set_value_descriptor custom_label (UnsignedV 129) 0
          (defines_setter custom_label UnsignedIntegral) = Inr 129"
    by (simp add: defines_setter_def custom_label_def)
qed

text \<open>
  C10. \<open>get\<close> leaves the stored raw word as it was: whenever \<open>get\<close> of a field name
  returns, the raw word read back from the container is the raw word before the call.
\<close>

theorem get_keeps_raw_word:
  assumes "word_generic_get w NameType = Inr (v, w')"
  shows "get_raw w' = get_raw w"
  using assms by (auto simp add: word_generic_get_def split: sum.splits)

theorem get_keeps_raw_word_witness:
  "word_generic_get \<lparr>DataDescriptors = [wide_a, custom_ssm], raw_word = 0x30000000\<rparr> ''ssm''
     = Inr (UnsignedV 3, \<lparr>DataDescriptors = [wide_a, custom_ssm], raw_word = 0x30000000\<rparr>) \<and>
   get_raw \<lparr>DataDescriptors = [wide_a, custom_ssm], raw_word = 0x30000000\<rparr> = 0x30000000"
proof -
  have run: "word_generic_get \<lparr>DataDescriptors = [wide_a, custom_ssm], raw_word = 0x30000000\<rparr>
               ''ssm''
             = Inr (UnsignedV 3,
                    \<lparr>DataDescriptors = [wide_a, custom_ssm], raw_word = 0x30000000\<rparr>)"
    by (simp add: word_generic_get_def get_data_descriptor_def filter_t_def
        is_same_name_type_def static_assert_def tuple_element_0_def get_value_descriptor_def
        defines_getter_def custom_ssm_def wide_a_def)
  from get_keeps_raw_word [OF run] run show ?thesis by (simp add: get_raw_def)
qed

text \<open>
  C6. For a field whose descriptor defines a custom getter, \<open>get\<close> calls the custom
  operation with the raw word, and the generic conversion is not applied.
  \<^verbatim>\<open>traits::defines_getter\<close> tests a call with two arguments, the value and
  \<^verbatim>\<open>tag_get\<close>, while the dispatch calls the operator with three, the destination, the raw
  word and \<^verbatim>\<open>tag_get\<close>. For \<open>raw_getter_ssm\<close>, whose getter takes the raw word, the
  trait is false: \<open>get\<close> on the raw word \<open>0x30000000\<close> takes the generic path and returns
  the value-initialised 0, where the getter applied to that raw word gives 3. For
  \<open>probed_ssm\<close>, which declares the tested shape only, the dispatched call is ill-formed.
\<close>

theorem custom_getter_not_called:
  "word_generic_ctor [wide_a, raw_getter_ssm] 0x30000000
     = Inr \<lparr>DataDescriptors = [wide_a, raw_getter_ssm], raw_word = 0x30000000\<rparr> \<and>
   defines_getter raw_getter_ssm (value_type raw_getter_ssm) = False \<and>
   word_generic_get \<lparr>DataDescriptors = [wide_a, raw_getter_ssm], raw_word = 0x30000000\<rparr>
       ''ssm''
     = Inr (UnsignedV 0,
            \<lparr>DataDescriptors = [wide_a, raw_getter_ssm], raw_word = 0x30000000\<rparr>) \<and>
   map_option (\<lambda>operator. fst (getter_call operator (UnsignedV 0) 0x30000000))
       (op_get raw_getter_ssm)
     = Some (UnsignedV 3) \<and>
   word_generic_get \<lparr>DataDescriptors = [wide_a, probed_ssm], raw_word = 0x30000000\<rparr> ''ssm''
     = Inl [NoMatchingCall]"
proof (intro conjI)
  show "word_generic_ctor [wide_a, raw_getter_ssm] 0x30000000
          = Inr \<lparr>DataDescriptors = [wide_a, raw_getter_ssm], raw_word = 0x30000000\<rparr>"
    by (simp add: word_generic_ctor_def word_generic_static_assert_def static_assert_def
        raw_getter_ssm_def wide_a_def word_size_def)
  show "defines_getter raw_getter_ssm (value_type raw_getter_ssm) = False"
    by (simp add: defines_getter_def raw_getter_ssm_def)
  show "word_generic_get
          \<lparr>DataDescriptors = [wide_a, raw_getter_ssm], raw_word = 0x30000000\<rparr> ''ssm''
        = Inr (UnsignedV 0,
               \<lparr>DataDescriptors = [wide_a, raw_getter_ssm], raw_word = 0x30000000\<rparr>)"
    by (simp add: word_generic_get_def get_data_descriptor_def filter_t_def
        is_same_name_type_def static_assert_def tuple_element_0_def get_value_descriptor_def
        defines_getter_def raw_getter_ssm_def wide_a_def scale_factor_double_ratio_1_1)
  show "map_option (\<lambda>operator. fst (getter_call operator (UnsignedV 0) 0x30000000))
          (op_get raw_getter_ssm)
        = Some (UnsignedV 3)"
    by (simp add: raw_getter_ssm_def)
  show "word_generic_get \<lparr>DataDescriptors = [wide_a, probed_ssm], raw_word = 0x30000000\<rparr>
          ''ssm''
        = Inl [NoMatchingCall]"
    by (simp add: word_generic_get_def get_data_descriptor_def filter_t_def
        is_same_name_type_def static_assert_def tuple_element_0_def get_value_descriptor_def
        defines_getter_def probed_ssm_def wide_a_def)
qed

section \<open>The conversions\<close>

text \<open>
  C2. Encoding a value of a signed integral field and decoding the same bit range gives the
  value back. \<^verbatim>\<open>detail::set_integral_value\<close> and \<^verbatim>\<open>detail::get_integral_value\<close> have
  the body \<^verbatim>\<open>// TODO: implement\<close>: for the field of bits 1 to 8, the raw word 0 and the
  value 1, encoding leaves the raw word 0 and decoding into a destination holding 0 leaves
  it 0.
\<close>

theorem signed_round_trip_lost:
  "set_value (SignedV 1) 0 1 8 1 = Inr 0 \<and>
   get_value (SignedV 0) 0 1 8 1 = Inr (SignedV 0) \<and>
   get_integral_value (SignedV 0) (set_integral_value (SignedV 1) 0 1 8 True) 1 8 True
     \<noteq> SignedV 1"
  by (simp add: set_value_def get_value_def static_assert_def)

text \<open>
  C3. The get conversion of a floating-point field multiplies the field integer by
  \<open>num / den\<close>: with the scale factor 1/1000 and the field integer 12345 it decodes 12.345.
  The argument \<^verbatim>\<open>double(scale_factor_t::num / scale_factor_t::den)\<close> divides the two
  integers before the conversion, so it is 0 for 1/1000, and the floating-point overload of
  \<^verbatim>\<open>detail::get_value\<close> has the body \<^verbatim>\<open>// TODO: implement\<close>: \<open>get\<close> returns the
  value-initialised 0.
\<close>

theorem floating_get_returns_zero:
  "data_descriptor ''value'' 1 16 FloatingPoint ratio_1_1000
     = Inr \<lparr>name_type = ''value'', lsb = 1, msb = 16, value_type = FloatingPoint,
            scale_factor_type = ratio_1_1000,
            probe_get = (\<lambda>V. False), probe_set = (\<lambda>V. False),
            op_get = None, op_set = None\<rparr> \<and>
   scale_factor_double ratio_1_1000 = Inr 0 \<and>
   (\<exists>w. word_generic_ctor
          [\<lparr>name_type = ''value'', lsb = 1, msb = 16, value_type = FloatingPoint,
            scale_factor_type = ratio_1_1000,
            probe_get = (\<lambda>V. False), probe_set = (\<lambda>V. False),
            op_get = None, op_set = None\<rparr>] 12345 = Inr w \<and>
        word_generic_get w ''value'' = Inr (FloatingV 0, w) \<and>
        12 < \<bar>0 - 12345 / (1000 :: real)\<bar>)"
proof (intro conjI)
  show "data_descriptor ''value'' 1 16 FloatingPoint ratio_1_1000
     = Inr \<lparr>name_type = ''value'', lsb = 1, msb = 16, value_type = FloatingPoint,
            scale_factor_type = ratio_1_1000,
            probe_get = (\<lambda>V. False), probe_set = (\<lambda>V. False),
            op_get = None, op_set = None\<rparr>"
    by (simp add: data_descriptor_def static_assert_def word_size_def)
  show "scale_factor_double ratio_1_1000 = Inr 0"
    by (simp add: scale_factor_double_def intmax_div_def ratio_1_1000_def
        double_of_intmax_exact)
  show "\<exists>w. word_generic_ctor
          [\<lparr>name_type = ''value'', lsb = 1, msb = 16, value_type = FloatingPoint,
            scale_factor_type = ratio_1_1000,
            probe_get = (\<lambda>V. False), probe_set = (\<lambda>V. False),
            op_get = None, op_set = None\<rparr>] 12345 = Inr w \<and>
        word_generic_get w ''value'' = Inr (FloatingV 0, w) \<and>
        12 < \<bar>0 - 12345 / (1000 :: real)\<bar>"
    by (simp add: word_generic_ctor_def word_generic_static_assert_def static_assert_def
        word_size_def word_generic_get_def get_data_descriptor_def filter_t_def
        is_same_name_type_def tuple_element_0_def get_value_descriptor_def defines_getter_def
        scale_factor_double_def intmax_div_def ratio_1_1000_def double_of_intmax_exact)
qed

section \<open>Field lookup\<close>

text \<open>
  C4. A lookup that matches no descriptor and is given a "not found" placeholder yields the
  placeholder. With a placeholder the first \<^verbatim>\<open>static_assert\<close> of
  \<^verbatim>\<open>traits::get_data_descriptor\<close> holds, but the member \<^verbatim>\<open>type\<close> is still
  \<^verbatim>\<open>std::tuple_element<0, filtered_t>::type\<close> of the empty tuple: the lookup of \<open>absent\<close>
  among \<open>[custom_label]\<close> with a placeholder is ill-formed.
\<close>

theorem lookup_with_placeholder_ill_formed:
  "get_data_descriptor ''absent'' [custom_label] (Some ()) = Inl [TupleIndexError] \<and>
   get_data_descriptor ''absent'' ([] :: string descriptor list) (Some ())
     = Inl [TupleIndexError]"
  by (simp add: get_data_descriptor_def filter_t_def is_same_name_type_def static_assert_def
      tuple_element_0_def custom_label_def)

text \<open>
  The placeholder is what lets the first assertion pass: the same lookup without one also
  reports that the descriptor was not found.
\<close>

theorem lookup_with_placeholder_ill_formed_witness:
  "get_data_descriptor ''absent'' [custom_label] (Some ()) = Inl [TupleIndexError] \<and>
   get_data_descriptor ''absent'' [custom_label] (None :: unit option)
     = Inl [NotFoundError, TupleIndexError]"
proof -
  have "get_data_descriptor ''absent'' [custom_label] (None :: unit option)
          = Inl [NotFoundError, TupleIndexError]"
    by (simp add: get_data_descriptor_def filter_t_def is_same_name_type_def static_assert_def
        tuple_element_0_def custom_label_def)
  with lookup_with_placeholder_ill_formed show ?thesis by simp
qed

section \<open>Validation of descriptors and word types\<close>

text \<open>
  C7. \<open>data_descriptor\<close> reports a LayoutError when \<open>lsb \<ge> msb\<close> and an OutOfRangeError
  when \<open>msb\<close> exceeds the word width of 32; with \<open>lsb < msb\<close> and \<open>msb \<le> 32\<close> the
  descriptor is accepted as declared. The checks read the template arguments only.
\<close>

theorem data_descriptor_checks:
  "(MSB \<le> LSB \<longrightarrow>
      (\<exists>es. data_descriptor NameType LSB MSB ValueType ScaleFactorT = Inl es \<and>
            LayoutError \<in> set es)) \<and>
   (word_size < MSB \<longrightarrow>
      (\<exists>es. data_descriptor NameType LSB MSB ValueType ScaleFactorT = Inl es \<and>
            OutOfRangeError \<in> set es)) \<and>
   (LSB < MSB \<and> MSB \<le> word_size \<longrightarrow>
      (\<exists>D. data_descriptor NameType LSB MSB ValueType ScaleFactorT = Inr D \<and>
           name_type D = NameType \<and> lsb D = LSB \<and> msb D = MSB \<and>
           value_type D = ValueType \<and> scale_factor_type D = ScaleFactorT)) \<and>
   unat word_size = 32"
  by (auto simp add: data_descriptor_def static_assert_def word_size_def)

theorem data_descriptor_checks_witness:
  "(\<exists>es. data_descriptor ''f'' 9 4 SignedIntegral ratio_1_1 = Inl es \<and> LayoutError \<in> set es) \<and>
   (\<exists>es. data_descriptor ''f'' 1 33 SignedIntegral ratio_1_1 = Inl es \<and>
         OutOfRangeError \<in> set es) \<and>
   (\<exists>D. data_descriptor ''f'' 11 28 SignedIntegral ratio_1_1 = Inr D \<and>
        lsb D = 11 \<and> msb D = 28)"
  using data_descriptor_checks [of 4 9 "''f''" SignedIntegral ratio_1_1]
    data_descriptor_checks [of 33 1 "''f''" SignedIntegral ratio_1_1]
    data_descriptor_checks [of 28 11 "''f''" SignedIntegral ratio_1_1]
  by (auto simp add: word_size_def)

text \<open>
  C9. A descriptor of a single bit, \<open>lsb = msb = p\<close>, is accepted for some position \<open>p\<close> of
  the word. As the code has it: for every position \<open>p\<close> the declaration is rejected, the
  check \<open>lsb < msb\<close> reporting a LayoutError.
\<close>

theorem single_bit_rejected:
  "data_descriptor NameType p p ValueType ScaleFactorT
     = Inl (LayoutError # static_assert (p \<le> word_size) OutOfRangeError)"
  by (simp add: data_descriptor_def static_assert_def)

theorem single_bit_rejected_witness:
  "data_descriptor ''bit'' 5 5 UnsignedIntegral ratio_1_1 = Inl [LayoutError]"
  using single_bit_rejected [of "''bit''" 5 UnsignedIntegral ratio_1_1]
  by (simp add: static_assert_def word_size_def)

theorem single_bit_accepted_counterexample:
  "\<not> (\<exists>p. 1 \<le> p \<and> p \<le> word_size \<and>
          (\<exists>D. data_descriptor ''bit'' p p UnsignedIntegral ratio_1_1 = Inr D))"
  by (simp add: data_descriptor_same_bit)

text \<open>
  C5. The total of the widths \<open>msb - lsb\<close> of the descriptors of a word type must not exceed
  32: a word type whose total is larger (and below \<open>2 ^ 64\<close>, where the \<^verbatim>\<open>size_t\<close> sum is
  the integer sum) fails the \<^verbatim>\<open>static_assert\<close> of \<^verbatim>\<open>word_generic\<close> with a
  CapacityError, and no raw word constructs an instance of it.
\<close>

theorem capacity_violation_rejected:
  assumes over: "32 < (\<Sum>D\<leftarrow>Descriptors. uint (msb D) - uint (lsb D))"
    and nowrap: "(\<Sum>D\<leftarrow>Descriptors. uint (msb D) - uint (lsb D)) < 2 ^ 64"
  shows "word_generic_static_assert Descriptors = [CapacityError] \<and>
         word_generic_ctor Descriptors rawWord = Inl [CapacityError]"
proof -
  let ?S = "\<Sum>D\<leftarrow>Descriptors. uint (msb D) - uint (lsb D)"
  from over obtain D Ds where ds: "Descriptors = D # Ds"
    by (cases Descriptors) auto
  have "uint (word_of_int ?S :: size_t) = ?S"
    using over nowrap by (simp add: uint_word_of_int take_bit_int_eq_self)
  then have "\<not> (word_of_int ?S :: size_t) \<le> word_size"
    using over by (simp add: word_le_def word_size_def)
  then have "word_generic_static_assert Descriptors = [CapacityError]"
    unfolding word_generic_static_assert_def ds [symmetric]
    using foldl_widths [of Descriptors] ds by (simp add: static_assert_def)
  then show ?thesis by (simp add: word_generic_ctor_def)
qed

theorem capacity_violation_rejected_witness:
  "32 < (\<Sum>D\<leftarrow>[wide_a, wide_b]. uint (msb D) - uint (lsb D)) \<and>
   (\<Sum>D\<leftarrow>[wide_a, wide_b]. uint (msb D) - uint (lsb D)) < 2 ^ 64 \<and>
   word_generic_static_assert [wide_a, wide_b] = [CapacityError] \<and>
   word_generic_ctor [wide_a, wide_b] 7 = Inl [CapacityError]"
proof -
  have over: "32 < (\<Sum>D\<leftarrow>[wide_a, wide_b]. uint (msb D) - uint (lsb D))"
    by (simp add: wide_a_def wide_b_def)
  have nowrap: "(\<Sum>D\<leftarrow>[wide_a, wide_b]. uint (msb D) - uint (lsb D)) < 2 ^ 64"
    by (simp add: wide_a_def wide_b_def)
  from capacity_violation_rejected [OF over nowrap, of 7] over nowrap
  show ?thesis by simp
qed

section \<open>Reinterpretation\<close>



end
